theory Spec2Isabelle
  imports Main
begin

section \<open>JavaScript values\<close>

text \<open>
  The values that \<^verbatim>\<open>index.js\<close> handles: primitives, error objects, arrays, plain
  objects and functions. An object is the list of its own enumerable properties in
  enumeration order; a function carries its source text (what converting it to a string
  yields) and its own enumerable properties. \<open>JNum\<close> stands for an integer-valued
  number and \<open>JNaN\<close> for the number NaN; fractions and infinities are not modelled.
  Objects are plain data: no accessor properties and no user-defined \<^verbatim>\<open>toString\<close>
  or \<^verbatim>\<open>valueOf\<close>. Strings are ASCII, so that a character is one unit of length.
\<close>

datatype errkind = Error | TypeError | SyntaxError

datatype jsval =
    JUndefined
  | JNull
  | JBool bool
  | JNaN
  | JNum int
  | JStr string
  | JErr errkind string
  | JArr "jsval list"
  | JObj "(string \<times> jsval) list"
  | JFun string "(string \<times> jsval) list"

text \<open>Decimal digits of a natural number, as number-to-string conversion prints them.\<close>

function nat_to_string :: "nat \<Rightarrow> string" where
  "nat_to_string n =
     (if n < 10 then [''0123456789'' ! n]
      else nat_to_string (n div 10) @ [''0123456789'' ! (n mod 10)])"
  by pat_completeness auto
termination
  by (relation "measure id") auto

declare nat_to_string.simps [simp del]

definition int_to_string :: "int \<Rightarrow> string" where
  "int_to_string i =
     (if i < 0 then ''-'' @ nat_to_string (nat (- i)) else nat_to_string (nat i))"

fun errkind_name :: "errkind \<Rightarrow> string" where
  "errkind_name Error = ''Error''"
| "errkind_name TypeError = ''TypeError''"
| "errkind_name SyntaxError = ''SyntaxError''"

fun join_comma :: "string list \<Rightarrow> string" where
  "join_comma [] = []"
| "join_comma [s] = s"
| "join_comma (s # t # ss) = s @ '','' @ join_comma (t # ss)"

text \<open>
  The language's conversion to a string, which template literals and string
  concatenation apply. An array joins its elements with commas, printing
  \<^verbatim>\<open>undefined\<close> and \<^verbatim>\<open>null\<close> elements as empty.
\<close>

fun ToString :: "jsval \<Rightarrow> string" where
  "ToString JUndefined = ''undefined''"
| "ToString JNull = ''null''"
| "ToString (JBool b) = (if b then ''true'' else ''false'')"
| "ToString JNaN = ''NaN''"
| "ToString (JNum n) = int_to_string n"
| "ToString (JStr s) = s"
| "ToString (JErr k m) = (if m = [] then errkind_name k else errkind_name k @ '': '' @ m)"
| "ToString (JArr xs) =
     join_comma (map (\<lambda>v. if v = JUndefined \<or> v = JNull then [] else ToString v) xs)"
| "ToString (JObj kvs) = ''[object Object]''"
| "ToString (JFun src props) = src"

fun js_typeof :: "jsval \<Rightarrow> string" where
  "js_typeof JUndefined = ''undefined''"
| "js_typeof JNull = ''object''"
| "js_typeof (JBool b) = ''boolean''"
| "js_typeof JNaN = ''number''"
| "js_typeof (JNum n) = ''number''"
| "js_typeof (JStr s) = ''string''"
| "js_typeof (JErr k m) = ''object''"
| "js_typeof (JArr xs) = ''object''"
| "js_typeof (JObj kvs) = ''object''"
| "js_typeof (JFun src props) = ''function''"

text \<open>Truthiness, as a conditional or \<^verbatim>\<open>||\<close> tests it.\<close>

fun js_truthy :: "jsval \<Rightarrow> bool" where
  "js_truthy JUndefined = False"
| "js_truthy JNull = False"
| "js_truthy (JBool b) = b"
| "js_truthy JNaN = False"
| "js_truthy (JNum n) = (n \<noteq> 0)"
| "js_truthy (JStr s) = (s \<noteq> [])"
| "js_truthy (JErr k m) = True"
| "js_truthy (JArr xs) = True"
| "js_truthy (JObj kvs) = True"
| "js_truthy (JFun src props) = True"

text \<open>
  \<^verbatim>\<open>Object.keys\<close>: a type error on \<^verbatim>\<open>undefined\<close> and \<^verbatim>\<open>null\<close>, the indices of a
  string or an array, the own enumerable property names of an object or a function,
  nothing for the other primitives and for error objects (whose message is not
  enumerable).
\<close>

fun Object_keys :: "jsval \<Rightarrow> jsval + string list" where
  "Object_keys JUndefined = Inl (JErr TypeError ''Cannot convert undefined or null to object'')"
| "Object_keys JNull = Inl (JErr TypeError ''Cannot convert undefined or null to object'')"
| "Object_keys (JBool b) = Inr []"
| "Object_keys JNaN = Inr []"
| "Object_keys (JNum n) = Inr []"
| "Object_keys (JStr s) = Inr (map nat_to_string [0..<length s])"
| "Object_keys (JErr k m) = Inr []"
| "Object_keys (JArr xs) = Inr (map nat_to_string [0..<length xs])"
| "Object_keys (JObj kvs) = Inr (map fst kvs)"
| "Object_keys (JFun src props) = Inr (map fst props)"

text \<open>\<^verbatim>\<open>Array.prototype.indexOf\<close>: the first position of an element, or \<open>-1\<close>.\<close>

fun indexOf :: "'a list \<Rightarrow> 'a \<Rightarrow> int" where
  "indexOf [] x = - 1"
| "indexOf (y # ys) x =
     (if y = x then 0 else (let r = indexOf ys x in if r = - 1 then - 1 else r + 1))"

section \<open>The query validator\<close>

text \<open>
  \<^verbatim>\<open>compareKeys(obj1, obj2, fn)\<close>. The body of the \<^verbatim>\<open>for\<close> loop leaves the function on
  both branches, so the increment is never reached: the loop either runs its body once,
  at \<open>i = 0\<close>, or not at all, and then the function ends without a \<^verbatim>\<open>return\<close>, which
  yields \<^verbatim>\<open>undefined\<close>. A thrown value is \<open>Inl\<close>, a returned one \<open>Inr\<close>.
\<close>

definition compareKeys_loop :: "string list \<Rightarrow> string list \<Rightarrow> string \<Rightarrow> nat \<Rightarrow> jsval + jsval" where
  "compareKeys_loop keys1 keys2 fn i =
     (if i < length keys1 then
        (if indexOf keys2 (keys1 ! i) \<le> - 1
         then Inl (JErr Error (''property '' @ keys1 ! i @ '' is not a valid query for '' @ fn))
         else Inr (JBool True))
      else Inr JUndefined)"

definition compareKeys :: "jsval \<Rightarrow> jsval \<Rightarrow> string \<Rightarrow> jsval + jsval" where
  "compareKeys obj1 obj2 fn =
     (case Object_keys obj1 of
        Inl e \<Rightarrow> Inl e
      | Inr keys1 \<Rightarrow>
          (case Object_keys obj2 of
             Inl e \<Rightarrow> Inl e
           | Inr keys2 \<Rightarrow> compareKeys_loop keys1 keys2 fn 0))"

section \<open>Operators and property reads\<close>

text \<open>
  The binary \<^verbatim>\<open>+\<close>: when either operand's primitive form is a string the operands are
  concatenated as strings, otherwise they are added as numbers. Objects, arrays,
  functions and error objects have a string as their primitive form.
\<close>

fun primitive_is_string :: "jsval \<Rightarrow> bool" where
  "primitive_is_string JUndefined = False"
| "primitive_is_string JNull = False"
| "primitive_is_string (JBool b) = False"
| "primitive_is_string JNaN = False"
| "primitive_is_string (JNum n) = False"
| "primitive_is_string (JStr s) = True"
| "primitive_is_string (JErr k m) = True"
| "primitive_is_string (JArr xs) = True"
| "primitive_is_string (JObj kvs) = True"
| "primitive_is_string (JFun src props) = True"

text \<open>Conversion of a non-string primitive to a number; \<open>None\<close> is NaN.\<close>

fun ToNumber :: "jsval \<Rightarrow> int option" where
  "ToNumber JUndefined = None"
| "ToNumber JNull = Some 0"
| "ToNumber (JBool b) = Some (if b then 1 else 0)"
| "ToNumber JNaN = None"
| "ToNumber (JNum n) = Some n"
| "ToNumber v = None"

definition js_add :: "jsval \<Rightarrow> jsval \<Rightarrow> jsval" where
  "js_add a b =
     (if primitive_is_string a \<or> primitive_is_string b then JStr (ToString a @ ToString b)
      else (case ToNumber a of
              None \<Rightarrow> JNaN
            | Some x \<Rightarrow> (case ToNumber b of None \<Rightarrow> JNaN | Some y \<Rightarrow> JNum (x + y))))"

text \<open>
  Reading a property: a type error on \<^verbatim>\<open>undefined\<close> and \<^verbatim>\<open>null\<close>, the own property
  of an object or function when it has one, \<^verbatim>\<open>undefined\<close> otherwise. Inherited and
  built-in properties are not modelled; the source reads \<^verbatim>\<open>statusCode\<close> only, which
  is none of them.
\<close>

fun get_prop :: "jsval \<Rightarrow> string \<Rightarrow> jsval + jsval" where
  "get_prop JUndefined p = Inl (JErr TypeError (''Cannot read property '' @ p @ '' of undefined''))"
| "get_prop JNull p = Inl (JErr TypeError (''Cannot read property '' @ p @ '' of null''))"
| "get_prop (JObj kvs) p = Inr (case map_of kvs p of None \<Rightarrow> JUndefined | Some x \<Rightarrow> x)"
| "get_prop (JFun src props) p = Inr (case map_of props p of None \<Rightarrow> JUndefined | Some x \<Rightarrow> x)"
| "get_prop v p = Inr JUndefined"

text \<open>The \<open>i\<close>-th argument of a call: \<^verbatim>\<open>undefined\<close> when fewer arguments were passed.\<close>

definition arg :: "jsval list \<Rightarrow> nat \<Rightarrow> jsval" where
  "arg args i = (if i < length args then args ! i else JUndefined)"

section \<open>The URL builder\<close>

text \<open>
  \<^verbatim>\<open>requestUrl(endpoint, token, options)\<close>. The serializer \<^verbatim>\<open>qs.stringify\<close> belongs to
  the external package \<^verbatim>\<open>qs\<close> and is a parameter here.
\<close>

definition requestUrl :: "(jsval \<Rightarrow> string) \<Rightarrow> jsval \<Rightarrow> jsval \<Rightarrow> jsval \<Rightarrow> string" where
  "requestUrl stringify endpoint token options =
     (let query = ''?'' @ (if js_truthy options then stringify options else [])
                   @ ''&client_id='' @ ToString token
      in ''https://api.behance.net/v2/'' @ ToString endpoint @ query)"

text \<open>
  A serializer for one-level objects whose keys and primitive values need no
  percent-encoding: \<^verbatim>\<open>key=value\<close> pairs joined by \<^verbatim>\<open>&\<close>, the empty string for
  anything that is not an object. On such inputs this is what \<^verbatim>\<open>qs.stringify\<close>
  produces; it serves to instantiate the parameter on concrete calls.
\<close>

fun join_amp :: "string list \<Rightarrow> string" where
  "join_amp [] = []"
| "join_amp [s] = s"
| "join_amp (s # t # ss) = s @ ''&'' @ join_amp (t # ss)"

fun qs_flat :: "jsval \<Rightarrow> string" where
  "qs_flat (JObj kvs) = join_amp (map (\<lambda>(k, v). k @ ''='' @ ToString v) kvs)"
| "qs_flat v = []"

section \<open>The response handler\<close>

text \<open>
  \<^verbatim>\<open>requestHandler(url, cb)\<close> hands the URL and a completion function to the external
  package \<^verbatim>\<open>request\<close> and returns. The model records the request that was issued;
  the completion function is \<open>requestHandler_response\<close>, which the transport calls
  later with \<^verbatim>\<open>(err, res, data)\<close>.
\<close>

record request =
  url :: string
  cb :: jsval

definition requestHandler :: "string \<Rightarrow> jsval \<Rightarrow> request" where
  "requestHandler u c = \<lparr>url = u, cb = c\<rparr>"

text \<open>
  What the completion function does: it raises a value out of the function
  (\<open>Raised\<close>), or calls the caller's callback with a list of arguments (\<open>Called\<close>).
\<close>

datatype handler_outcome = Raised jsval | Called jsval "jsval list"

definition call_cb :: "jsval \<Rightarrow> jsval list \<Rightarrow> handler_outcome" where
  "call_cb c args =
     (case c of
        JFun src props \<Rightarrow> Called c args
      | _ \<Rightarrow> Raised (JErr TypeError ''cb is not a function''))"

text \<open>
  \<^verbatim>\<open>JSON.parse\<close> is a parameter: it maps the text to a parsed value, or to the message
  of the syntax error it throws.
\<close>

definition requestHandler_response ::
  "(string \<Rightarrow> string + jsval) \<Rightarrow> jsval \<Rightarrow> jsval \<Rightarrow> jsval \<Rightarrow> jsval \<Rightarrow> handler_outcome" where
  "requestHandler_response json_parse c err res data =
     (case get_prop res ''statusCode'' of
        Inl e \<Rightarrow> Raised e
      | Inr statusCode \<Rightarrow>
          if statusCode = JNum 403
          then call_cb c [JErr Error ''No response from the Behance API'']
          else (case json_parse (ToString data) of
                  Inl m \<Rightarrow> Raised (JErr Error (ToString (JErr SyntaxError m)))
                | Inr payload \<Rightarrow> call_cb c [err, res, payload]))"

section \<open>The client and its generated operations\<close>

record behance =
  clientId :: jsval

text \<open>\<^verbatim>\<open>new Behance(token)\<close>: throws when no token is given.\<close>

definition Behance :: "jsval list \<Rightarrow> jsval + behance" where
  "Behance args =
     (let this = \<lparr>clientId = arg args 0\<rparr>
      in if clientId this = JUndefined
         then Inl (JErr Error ''Please supply an authorization token for new Behance().'')
         else Inr this)"

text \<open>
  An endpoint descriptor. A field that a table entry does not define reads as
  \<^verbatim>\<open>undefined\<close>.
\<close>

record endpoint_def =
  name :: string
  path :: jsval
  pathprefix :: jsval
  pathsuffix :: jsval
  queries :: jsval

text \<open>
  A generated operation takes the client and the list of arguments of the call. It
  throws (\<open>Inl\<close>) or returns, having issued the listed requests (\<open>Inr\<close>).
\<close>

type_synonym operation = "behance \<Rightarrow> jsval list \<Rightarrow> jsval + request list"

text \<open>Operations of the endpoints that only take options: \<^verbatim>\<open>(opts, cb)\<close>.\<close>

definition optionOnly_assign :: "(jsval \<Rightarrow> string) \<Rightarrow> endpoint_def \<Rightarrow> operation" where
  "optionOnly_assign stringify def this args =
     (let opts = arg args 0; c = arg args 1 in
      case Object_keys opts of
        Inl e \<Rightarrow> Inl e
      | Inr ks \<Rightarrow>
          if length ks = 0
          then Inr [requestHandler (requestUrl stringify (path def) (clientId this) opts) c]
          else (case compareKeys opts (queries def) (name def) of
                  Inl e \<Rightarrow> Inl e
                | Inr r \<Rightarrow>
                    if js_truthy r
                    then Inr [requestHandler (requestUrl stringify (path def) (clientId this) opts) c]
                    else Inr []))"

text \<open>Operations of the endpoints that take an id and no options: \<^verbatim>\<open>(id, cb)\<close>.\<close>

definition onlyAnId_assign :: "(jsval \<Rightarrow> string) \<Rightarrow> endpoint_def \<Rightarrow> operation" where
  "onlyAnId_assign stringify def this args =
     (let id = arg args 0; c = arg args 1;
          endpoint = js_add (js_add (pathprefix def) id)
                       (if js_truthy (pathsuffix def) then pathsuffix def else JStr [])
      in if length args \<noteq> 2
         then Inl (JErr Error (''.'' @ name def @ '' requires both an id and a callback function.''))
         else Inr [requestHandler (requestUrl stringify endpoint (clientId this) JUndefined) c])"

text \<open>
  Operations of the endpoints that take an id and options: \<^verbatim>\<open>(id, opts, cb)\<close>.
  \<open>newCb\<close> and \<open>newOpts\<close> stay \<^verbatim>\<open>undefined\<close> unless the call has two arguments.
\<close>

definition idAndOptions_assign :: "(jsval \<Rightarrow> string) \<Rightarrow> endpoint_def \<Rightarrow> operation" where
  "idAndOptions_assign stringify def this args =
     (let id = arg args 0; opts = arg args 1; c = arg args 2;
          endpoint = js_add (js_add (pathprefix def) id)
                       (if js_truthy (pathsuffix def) then pathsuffix def else JStr []);
          newCb = (if length args = 2 then opts else JUndefined);
          newOpts = (if length args = 2 then JObj [] else JUndefined)
      in if id = JStr [] \<or> js_typeof id = ''object''
         then Inl (JErr Error (''.'' @ name def @ '' requires at least an id and a callback function.''))
         else (case Object_keys opts of
                 Inl e \<Rightarrow> Inl e
               | Inr ks \<Rightarrow>
                   if length ks = 0
                   then Inr [requestHandler
                               (requestUrl stringify endpoint (clientId this)
                                  (if js_truthy newOpts then newOpts else opts))
                               (if js_truthy newCb then newCb else c)]
                   else (case compareKeys opts (queries def) (name def) of
                           Inl e \<Rightarrow> Inl e
                         | Inr r \<Rightarrow>
                             if js_truthy r
                             then Inr [requestHandler
                                         (requestUrl stringify endpoint (clientId this)
                                            (if js_truthy newOpts then newOpts else opts))
                                         (if js_truthy newCb then newCb else c)]
                             else Inr [])))"

text \<open>\<^verbatim>\<open>fields(cb)\<close>, the one operation that is not generated.\<close>

definition fields :: "(jsval \<Rightarrow> string) \<Rightarrow> operation" where
  "fields stringify this args =
     Inr [requestHandler (requestUrl stringify (JStr ''fields'') (clientId this) JUndefined)
            (arg args 0)]"

subsection \<open>The endpoint tables\<close>

text \<open>
  The schemas come from \<^verbatim>\<open>libs/query-validation.json\<close>, a data file. The tables take
  the lookup \<open>queryValidation\<close> of a property of that document as a parameter; a name the
  document lacks reads as \<^verbatim>\<open>undefined\<close>.
\<close>

definition endpointWithOptionOnly :: "(string \<Rightarrow> jsval) \<Rightarrow> endpoint_def list" where
  "endpointWithOptionOnly queryValidation =
     [\<lparr>name = ''projects'', path = JStr ''projects'', pathprefix = JUndefined,
        pathsuffix = JUndefined, queries = queryValidation ''projects''\<rparr>,
      \<lparr>name = ''creativesToFollow'', path = JStr ''creativestofollow'', pathprefix = JUndefined,
        pathsuffix = JUndefined, queries = queryValidation ''creativesToFollow''\<rparr>,
      \<lparr>name = ''users'', path = JStr ''users'', pathprefix = JUndefined,
        pathsuffix = JUndefined, queries = queryValidation ''users''\<rparr>,
      \<lparr>name = ''teams'', path = JStr ''teams'', pathprefix = JUndefined,
        pathsuffix = JUndefined, queries = queryValidation ''teams''\<rparr>,
      \<lparr>name = ''collections'', path = JStr ''collections'', pathprefix = JUndefined,
        pathsuffix = JUndefined, queries = queryValidation ''collections''\<rparr>]"

definition endpointWithOnlyAnId :: "endpoint_def list" where
  "endpointWithOnlyAnId =
     [\<lparr>name = ''project'', path = JUndefined, pathprefix = JStr ''projects/'',
        pathsuffix = JUndefined, queries = JUndefined\<rparr>,
      \<lparr>name = ''user'', path = JUndefined, pathprefix = JStr ''users/'',
        pathsuffix = JUndefined, queries = JUndefined\<rparr>,
      \<lparr>name = ''team'', path = JUndefined, pathprefix = JStr ''teams/'',
        pathsuffix = JUndefined, queries = JUndefined\<rparr>,
      \<lparr>name = ''userStats'', path = JUndefined, pathprefix = JStr ''users/'',
        pathsuffix = JStr ''/stats'', queries = JUndefined\<rparr>,
      \<lparr>name = ''userWorkExperience'', path = JUndefined, pathprefix = JStr ''users/'',
        pathsuffix = JStr ''/work_experience'', queries = JUndefined\<rparr>,
      \<lparr>name = ''collection'', path = JStr ''collection'', pathprefix = JUndefined,
        pathsuffix = JUndefined, queries = JUndefined\<rparr>]"

definition endpointWithIdAndOptions :: "(string \<Rightarrow> jsval) \<Rightarrow> endpoint_def list" where
  "endpointWithIdAndOptions queryValidation =
     [\<lparr>name = ''projectComments'', path = JUndefined, pathprefix = JStr ''projects/'',
        pathsuffix = JStr ''/comments'', queries = queryValidation ''projectComments''\<rparr>,
      \<lparr>name = ''userProjects'', path = JUndefined, pathprefix = JStr ''users/'',
        pathsuffix = JStr ''/projects'', queries = queryValidation ''userProjects''\<rparr>,
      \<lparr>name = ''userWips'', path = JUndefined, pathprefix = JStr ''users/'',
        pathsuffix = JStr ''/wips'', queries = queryValidation ''userWips''\<rparr>,
      \<lparr>name = ''teamProjects'', path = JUndefined, pathprefix = JStr ''teams/'',
        pathsuffix = JStr ''/projects'', queries = queryValidation ''teamsProjects''\<rparr>,
      \<lparr>name = ''userAppreciations'', path = JUndefined, pathprefix = JStr ''users/'',
        pathsuffix = JStr ''/appreciations'', queries = queryValidation ''userAppreciations''\<rparr>,
      \<lparr>name = ''userCollections'', path = JUndefined, pathprefix = JStr ''users/'',
        pathsuffix = JStr ''/collections'', queries = queryValidation ''userCollections''\<rparr>,
      \<lparr>name = ''userFollowers'', path = JUndefined, pathprefix = JStr ''users/'',
        pathsuffix = JStr ''/followers'', queries = queryValidation ''userFollowers''\<rparr>,
      \<lparr>name = ''userFollowing'', path = JUndefined, pathprefix = JStr ''users/'',
        pathsuffix = JStr ''/following'', queries = queryValidation ''userFollowing''\<rparr>,
      \<lparr>name = ''collectionProjects'', path = JUndefined, pathprefix = JStr ''collections/'',
        pathsuffix = JStr ''/projects'', queries = queryValidation ''collectionProjects''\<rparr>]"

subsection \<open>The prototype\<close>

text \<open>
  The three \<^verbatim>\<open>forEach\<close> loops assign one operation per table entry to the prototype,
  under the entry's name, in the order of the source; \<^verbatim>\<open>fields\<close> is assigned last.
\<close>

definition Behance_prototype ::
  "(jsval \<Rightarrow> string) \<Rightarrow> (string \<Rightarrow> jsval) \<Rightarrow> string \<rightharpoonup> operation" where
  "Behance_prototype stringify queryValidation =
     (fold (\<lambda>def proto. proto(name def \<mapsto> idAndOptions_assign stringify def))
        (endpointWithIdAndOptions queryValidation)
        (fold (\<lambda>def proto. proto(name def \<mapsto> onlyAnId_assign stringify def))
           endpointWithOnlyAnId
           (fold (\<lambda>def proto. proto(name def \<mapsto> optionOnly_assign stringify def))
              (endpointWithOptionOnly queryValidation)
              Map.empty)))
     (''fields'' \<mapsto> fields stringify)"

text \<open>
  A method call \<^verbatim>\<open>Be.m(args)\<close> on a client: a type error when the prototype has no
  such operation.
\<close>

definition Behance_call ::
  "(jsval \<Rightarrow> string) \<Rightarrow> (string \<Rightarrow> jsval) \<Rightarrow> behance \<Rightarrow> string \<Rightarrow> jsval list
     \<Rightarrow> jsval + request list" where
  "Behance_call stringify queryValidation this m args =
     (case Behance_prototype stringify queryValidation m of
        None \<Rightarrow> Inl (JErr TypeError (''Be.'' @ m @ '' is not a function''))
      | Some operation \<Rightarrow> operation this args)"

text \<open>
  The schema that the repository's test of \<^verbatim>\<open>compareKeys\<close> uses,
  \<^verbatim>\<open>{ q: '', sort: '' }\<close>, and a schema document that gives it to every endpoint:
  concrete data for evaluating the operations.
\<close>

definition test_schema :: jsval where
  "test_schema = JObj [(''q'', JStr []), (''sort'', JStr [])]"

definition test_queryValidation :: "string \<Rightarrow> jsval" where
  "test_queryValidation endpoint_name = test_schema"

section \<open>Properties of the validator\<close>

lemma indexOf_ge: "- 1 \<le> indexOf xs x"
  by (induction xs) (auto simp: Let_def)

lemma indexOf_absent: "indexOf xs x \<le> - 1 \<longleftrightarrow> x \<notin> set xs"
proof (induction xs)
  case Nil
  show ?case by simp
next
  case (Cons y ys)
  have "- 1 \<le> indexOf ys x" by (rule indexOf_ge)
  with Cons show ?case by (auto simp: Let_def)
qed

lemma compareKeys_first:
  assumes "Object_keys obj1 = Inr (k # ks)" and "Object_keys obj2 = Inr keys2"
  shows "compareKeys obj1 obj2 fn =
           (if k \<in> set keys2 then Inr (JBool True)
            else Inl (JErr Error (''property '' @ k @ '' is not a valid query for '' @ fn)))"
  using assms by (simp add: compareKeys_def compareKeys_loop_def indexOf_absent)

text \<open>
  Claim C1. For a non-empty options object and any schema, the validator looks at the
  first key of the options object only: it throws when that key is not a key of the
  schema and returns \<^verbatim>\<open>true\<close> when it is, whatever the remaining keys are.
\<close>

theorem compareKeys_inspects_first_key_only:
  "compareKeys (JObj ((k, v) # rest)) (JObj schema) fn =
     (if k \<in> set (map fst schema) then Inr (JBool True)
      else Inl (JErr Error (''property '' @ k @ '' is not a valid query for '' @ fn)))
   \<and> compareKeys (JObj ((k, v) # rest)) (JObj schema) fn =
       compareKeys (JObj [(k, v)]) (JObj schema) fn"
  by (simp add: compareKeys_first)

text \<open>
  Claim C8, amended. For an options object with at least one key and any schema, the
  validator returns \<^verbatim>\<open>true\<close>, or throws an error whose message names a key of the
  options that the schema lacks and the endpoint name.
\<close>

theorem compareKeys_nonempty_true_or_error:
  "compareKeys (JObj ((k, v) # rest)) (JObj schema) fn = Inr (JBool True)
   \<or> compareKeys (JObj ((k, v) # rest)) (JObj schema) fn =
        Inl (JErr Error (''property '' @ k @ '' is not a valid query for '' @ fn))
      \<and> k \<notin> set (map fst schema)"
  by (simp add: compareKeys_first)

text \<open>
  Claim C8 as stated includes the empty options object. On it the loop body never runs
  and the validator returns \<^verbatim>\<open>undefined\<close>: neither \<^verbatim>\<open>true\<close> nor an error.
\<close>

theorem compareKeys_empty_returns_undefined:
  "compareKeys (JObj []) test_schema ''Test Function'' = Inr JUndefined
   \<and> compareKeys (JObj []) test_schema ''Test Function'' \<noteq> Inr (JBool True)"
  by (simp add: compareKeys_def compareKeys_loop_def test_schema_def)

section \<open>Properties of the URL builder\<close>

text \<open>
  Claim C4. The URL is the base address, the endpoint path, a question mark, the
  serialized options (nothing when the options are absent or falsy), and the client id
  as the last parameter. With absent or empty options the query starts with
  \<^verbatim>\<open>?&client_id=\<close>. The serializer is the package's: the statement assumes of it what
  it yields on the empty object and on the object of the example.
\<close>

theorem requestUrl_format:
  assumes "stringify (JObj []) = []"
      and "stringify (JObj [(''q'', JStr ''motorcycle''), (''time'', JStr ''month'')])
             = ''q=motorcycle&time=month''"
  shows "requestUrl stringify (JStr endpointPath) token options =
           ''https://api.behance.net/v2/'' @ endpointPath @ ''?''
             @ (if js_truthy options then stringify options else []) @ ''&client_id='' @ ToString token
         \<and> requestUrl stringify (JStr endpointPath) token JUndefined =
           ''https://api.behance.net/v2/'' @ endpointPath @ ''?&client_id='' @ ToString token
         \<and> requestUrl stringify (JStr endpointPath) token (JObj []) =
           ''https://api.behance.net/v2/'' @ endpointPath @ ''?&client_id='' @ ToString token
         \<and> requestUrl stringify (JStr ''projects'') (JNum 123)
             (JObj [(''q'', JStr ''motorcycle''), (''time'', JStr ''month'')]) =
           ''https://api.behance.net/v2/projects?q=motorcycle&time=month&client_id=123''"
  using assms by (simp add: requestUrl_def int_to_string_def nat_to_string.simps)

text \<open>The statement at the serializer \<open>qs_flat\<close>, for the URL of \<^verbatim>\<open>fields\<close>.\<close>

theorem requestUrl_format_witness:
  "qs_flat (JObj []) = []
   \<and> qs_flat (JObj [(''q'', JStr ''motorcycle''), (''time'', JStr ''month'')]) = ''q=motorcycle&time=month''
   \<and> requestUrl qs_flat (JStr ''fields'') (JNum 123456789) JUndefined =
        ''https://api.behance.net/v2/fields?&client_id=123456789''
   \<and> requestUrl qs_flat (JStr ''projects'') (JNum 123)
             (JObj [(''q'', JStr ''motorcycle''), (''time'', JStr ''month'')]) =
           ''https://api.behance.net/v2/projects?q=motorcycle&time=month&client_id=123''"
  using requestUrl_format [where stringify = qs_flat and endpointPath = "''fields''"
      and token = "JNum 123456789" and options = JUndefined]
  by (simp add: int_to_string_def nat_to_string.simps)

section \<open>Properties of the response handler\<close>

text \<open>
  Claim C5. The claim is that a transport error reaches the callback's error parameter.
  The code does not do this when the transport reports the error without a response
  object, as it does when no response was received: reading \<^verbatim>\<open>res.statusCode\<close>
  raises a type error inside the completion function, whatever the error, the body and
  the callback are, and the callback is not called.
\<close>

theorem transport_error_without_response_raises:
  "requestHandler_response json_parse c err JUndefined data =
     Raised (JErr TypeError ''Cannot read property statusCode of undefined'')"
  by (simp add: requestHandler_response_def)

text \<open>With a response object the handler calls the callback, on both of its paths.\<close>

lemma response_forbidden:
  "requestHandler_response json_parse (JFun src props) err (JObj [(''statusCode'', JNum 403)]) data =
     Called (JFun src props) [JErr Error ''No response from the Behance API'']"
  by (simp add: requestHandler_response_def call_cb_def)

lemma response_parsed:
  assumes "get_prop res ''statusCode'' = Inr sc" and "sc \<noteq> JNum 403"
      and "json_parse (ToString data) = Inr payload"
  shows "requestHandler_response json_parse (JFun src props) err res data =
           Called (JFun src props) [err, res, payload]"
  using assms by (simp add: requestHandler_response_def call_cb_def)

section \<open>Properties of the generated operations\<close>

subsection \<open>What the prototype holds\<close>

lemmas table_defs = Behance_prototype_def endpointWithIdAndOptions_def endpointWithOnlyAnId_def
  endpointWithOptionOnly_def

lemma proto_optionOnly_all:
  "list_all (\<lambda>d. Behance_prototype st qv (name d) = Some (optionOnly_assign st d))
     (endpointWithOptionOnly qv)"
  by (simp add: table_defs)

lemma proto_optionOnly:
  "d \<in> set (endpointWithOptionOnly qv) \<Longrightarrow>
   Behance_prototype st qv (name d) = Some (optionOnly_assign st d)"
  using proto_optionOnly_all [of st qv] by (simp add: list_all_iff)

lemma proto_onlyAnId_all:
  "list_all (\<lambda>d. Behance_prototype st qv (name d) = Some (onlyAnId_assign st d))
     endpointWithOnlyAnId"
  by (simp add: table_defs)

lemma proto_onlyAnId:
  "d \<in> set endpointWithOnlyAnId \<Longrightarrow>
   Behance_prototype st qv (name d) = Some (onlyAnId_assign st d)"
  using proto_onlyAnId_all [of st qv] by (simp add: list_all_iff)

lemma proto_idAndOptions_all:
  "list_all (\<lambda>d. Behance_prototype st qv (name d) = Some (idAndOptions_assign st d))
     (endpointWithIdAndOptions qv)"
  by (simp add: table_defs)

lemma proto_idAndOptions:
  "d \<in> set (endpointWithIdAndOptions qv) \<Longrightarrow>
   Behance_prototype st qv (name d) = Some (idAndOptions_assign st d)"
  using proto_idAndOptions_all [of st qv] by (simp add: list_all_iff)

lemma projects_def_in_table:
  "\<lparr>name = ''projects'', path = JStr ''projects'', pathprefix = JUndefined,
     pathsuffix = JUndefined, queries = qv ''projects''\<rparr> \<in> set (endpointWithOptionOnly qv)"
  by (simp add: endpointWithOptionOnly_def)

lemma project_def_in_table:
  "\<lparr>name = ''project'', path = JUndefined, pathprefix = JStr ''projects/'',
     pathsuffix = JUndefined, queries = JUndefined\<rparr> \<in> set endpointWithOnlyAnId"
  by (simp add: endpointWithOnlyAnId_def)

lemma collection_def_in_table:
  "\<lparr>name = ''collection'', path = JStr ''collection'', pathprefix = JUndefined,
     pathsuffix = JUndefined, queries = JUndefined\<rparr> \<in> set endpointWithOnlyAnId"
  by (simp add: endpointWithOnlyAnId_def)

lemma userProjects_def_in_table:
  "\<lparr>name = ''userProjects'', path = JUndefined, pathprefix = JStr ''users/'',
     pathsuffix = JStr ''/projects'', queries = qv ''userProjects''\<rparr>
     \<in> set (endpointWithIdAndOptions qv)"
  by (simp add: endpointWithIdAndOptions_def)

lemma call_projects:
  "Behance_call st qv this ''projects'' args =
     optionOnly_assign st
       \<lparr>name = ''projects'', path = JStr ''projects'', pathprefix = JUndefined,
          pathsuffix = JUndefined, queries = qv ''projects''\<rparr> this args"
  using proto_optionOnly [OF projects_def_in_table, of st qv] by (simp add: Behance_call_def)

lemma call_project:
  "Behance_call st qv this ''project'' args =
     onlyAnId_assign st
       \<lparr>name = ''project'', path = JUndefined, pathprefix = JStr ''projects/'',
          pathsuffix = JUndefined, queries = JUndefined\<rparr> this args"
  using proto_onlyAnId [OF project_def_in_table, of st qv] by (simp add: Behance_call_def)

lemma call_collection:
  "Behance_call st qv this ''collection'' args =
     onlyAnId_assign st
       \<lparr>name = ''collection'', path = JStr ''collection'', pathprefix = JUndefined,
          pathsuffix = JUndefined, queries = JUndefined\<rparr> this args"
  using proto_onlyAnId [OF collection_def_in_table, of st qv] by (simp add: Behance_call_def)

lemma call_userProjects:
  "Behance_call st qv this ''userProjects'' args =
     idAndOptions_assign st
       \<lparr>name = ''userProjects'', path = JUndefined, pathprefix = JStr ''users/'',
          pathsuffix = JStr ''/projects'', queries = qv ''userProjects''\<rparr> this args"
  using proto_idAndOptions [OF userProjects_def_in_table, of st qv]
  by (simp add: Behance_call_def)

lemmas eval_defs = optionOnly_assign_def onlyAnId_assign_def idAndOptions_assign_def arg_def
  compareKeys_def compareKeys_loop_def requestHandler_def requestUrl_def js_add_def
  test_queryValidation_def test_schema_def int_to_string_def nat_to_string.simps Let_def

subsection \<open>Validation of the options\<close>

text \<open>
  In both families that take options, the first key of a non-empty options object
  decides the call: the request goes out when the schema has that key, the validation
  error is thrown when it does not.
\<close>

lemma optionOnly_first_key_decides:
  assumes "d \<in> set (endpointWithOptionOnly qv)" and "queries d = JObj schema"
  shows "Behance_call st qv this (name d) [JObj ((k, v) # rest), c] =
           (if k \<in> set (map fst schema)
            then Inr [requestHandler (requestUrl st (path d) (clientId this) (JObj ((k, v) # rest))) c]
            else Inl (JErr Error (''property '' @ k @ '' is not a valid query for '' @ name d)))"
proof -
  have "compareKeys (JObj ((k, v) # rest)) (queries d) (name d) =
          (if k \<in> set (map fst schema) then Inr (JBool True)
           else Inl (JErr Error (''property '' @ k @ '' is not a valid query for '' @ name d)))"
    using assms(2) by (simp add: compareKeys_first)
  then show ?thesis
    using proto_optionOnly [OF assms(1), of st]
    by (simp add: Behance_call_def optionOnly_assign_def arg_def Let_def)
qed

lemma idAndOptions_first_key_decides:
  assumes "d \<in> set (endpointWithIdAndOptions qv)" and "queries d = JObj schema"
      and "ident \<noteq> JStr []" and "js_typeof ident \<noteq> ''object''"
      and "Object_keys opts = Inr (k # ks)"
  shows "(\<exists>e. Behance_call st qv this (name d) [ident, opts, c] = Inl e) \<longleftrightarrow>
           k \<notin> set (map fst schema)"
proof -
  have "compareKeys opts (queries d) (name d) =
          (if k \<in> set (map fst schema) then Inr (JBool True)
           else Inl (JErr Error (''property '' @ k @ '' is not a valid query for '' @ name d)))"
    using assms(2,5) by (simp add: compareKeys_first)
  then show ?thesis
    using proto_idAndOptions [OF assms(1), of st] assms(3,4,5)
    by (simp add: Behance_call_def idAndOptions_assign_def arg_def Let_def)
qed

text \<open>
  Claim C2. The claim is that an options object with a key that the schema lacks makes
  the call throw and issue no request. The code does not do this when a key of the
  schema comes first: \<^verbatim>\<open>projects({q: 'motorcycle', bogus: '1'}, cb)\<close> and
  \<^verbatim>\<open>userProjects('edmendoza3', {sort: 'appreciations', bogus: '1'}, cb)\<close>, against a
  schema with the keys \<^verbatim>\<open>q\<close> and \<^verbatim>\<open>sort\<close>, both issue their request, the invalid key
  in the query string.
\<close>

theorem later_invalid_key_issues_request:
  "Behance_call qs_flat test_queryValidation \<lparr>clientId = JNum 123456789\<rparr> ''projects''
     [JObj [(''q'', JStr ''motorcycle''), (''bogus'', JStr ''1'')], JFun ''function cb() {}'' []]
   = Inr [\<lparr>url = ''https://api.behance.net/v2/projects?q=motorcycle&bogus=1&client_id=123456789'',
           cb = JFun ''function cb() {}'' []\<rparr>]
   \<and> Behance_call qs_flat test_queryValidation \<lparr>clientId = JNum 123456789\<rparr> ''userProjects''
     [JStr ''edmendoza3'', JObj [(''sort'', JStr ''appreciations''), (''bogus'', JStr ''1'')],
      JFun ''function cb() {}'' []]
   = Inr [\<lparr>url = ''https://api.behance.net/v2/users/edmendoza3/projects?sort=appreciations&bogus=1&client_id=123456789'',
           cb = JFun ''function cb() {}'' []\<rparr>]"
  by (simp add: call_projects call_userProjects eval_defs)

subsection \<open>Calls with two arguments\<close>

text \<open>
  With a callback that has no own enumerable properties, a call with two arguments
  does what the call with the empty options object in between does.
\<close>

lemma two_arguments_plain_callback:
  assumes "d \<in> set (endpointWithIdAndOptions qv)"
  shows "Behance_call st qv this (name d) [ident, JFun src []] =
         Behance_call st qv this (name d) [ident, JObj [], JFun src []]"
  using proto_idAndOptions [OF assms, of st]
  by (simp add: Behance_call_def idAndOptions_assign_def arg_def Let_def)

text \<open>
  Claim C3. The claim is that a call with two arguments behaves as the call with three
  arguments and empty options, for every callback. The code does not do this for a
  callback that carries an own enumerable property: the validation reads the second
  argument as passed, so \<^verbatim>\<open>userProjects('edmendoza3', cb)\<close> with \<^verbatim>\<open>cb.bogus = 1\<close>
  throws the validation error, while \<^verbatim>\<open>userProjects('edmendoza3', {}, cb)\<close> issues the
  request.
\<close>

theorem two_argument_call_validates_callback:
  "Behance_call qs_flat test_queryValidation \<lparr>clientId = JNum 123456789\<rparr> ''userProjects''
     [JStr ''edmendoza3'', JFun ''function cb() {}'' [(''bogus'', JNum 1)]]
   = Inl (JErr Error ''property bogus is not a valid query for userProjects'')
   \<and> Behance_call qs_flat test_queryValidation \<lparr>clientId = JNum 123456789\<rparr> ''userProjects''
     [JStr ''edmendoza3'', JObj [], JFun ''function cb() {}'' [(''bogus'', JNum 1)]]
   = Inr [\<lparr>url = ''https://api.behance.net/v2/users/edmendoza3/projects?&client_id=123456789'',
           cb = JFun ''function cb() {}'' [(''bogus'', JNum 1)]\<rparr>]"
  by (simp add: call_userProjects eval_defs)




subsection \<open>Argument checks\<close>

text \<open>
  Claim C6. An operation generated from the id-only table, called with a number of
  arguments other than two, throws the argument error and issues no request.
\<close>

theorem onlyAnId_wrong_arity_throws:
  assumes "d \<in> set endpointWithOnlyAnId" and "length args \<noteq> 2"
  shows "Behance_call stringify queryValidation this (name d) args =
           Inl (JErr Error (''.'' @ name d @ '' requires both an id and a callback function.''))"
  using assms(2) proto_onlyAnId [OF assms(1), of stringify queryValidation]
  by (simp add: Behance_call_def onlyAnId_assign_def Let_def)

text \<open>The statement at \<^verbatim>\<open>project(cb)\<close>, the call of the repository's test.\<close>

theorem onlyAnId_wrong_arity_throws_witness:
  "\<lparr>name = ''project'', path = JUndefined, pathprefix = JStr ''projects/'',
      pathsuffix = JUndefined, queries = JUndefined\<rparr> \<in> set endpointWithOnlyAnId
   \<and> length [JFun ''function cb() {}'' []] \<noteq> 2
   \<and> Behance_call qs_flat test_queryValidation \<lparr>clientId = JNum 123456789\<rparr> ''project''
        [JFun ''function cb() {}'' []]
      = Inl (JErr Error ''.project requires both an id and a callback function.'')"
  using onlyAnId_wrong_arity_throws [where queryValidation = test_queryValidation
      and stringify = qs_flat and args = "[JFun ''function cb() {}'' []]"
      and this = "\<lparr>clientId = JNum 123456789\<rparr>", OF project_def_in_table]
  by (simp add: project_def_in_table)

text \<open>
  Claim C7. An operation generated from the id-plus-options table, called with an id
  that is the empty string or whose type is \<^verbatim>\<open>object\<close>, throws the argument error and
  issues no request, whatever the other arguments are.
\<close>

theorem idAndOptions_bad_id_throws:
  assumes "d \<in> set (endpointWithIdAndOptions queryValidation)"
      and "ident = JStr [] \<or> js_typeof ident = ''object''"
  shows "Behance_call stringify queryValidation this (name d) (ident # rest) =
           Inl (JErr Error (''.'' @ name d @ '' requires at least an id and a callback function.''))"
  using assms(2) proto_idAndOptions [OF assms(1), of stringify]
  by (auto simp: Behance_call_def idAndOptions_assign_def Let_def arg_def)

text \<open>
  The statement at \<^verbatim>\<open>userProjects({ sort: 'appreciations' }, cb)\<close>, the call of the
  repository's test.
\<close>

theorem idAndOptions_bad_id_throws_witness:
  "\<lparr>name = ''userProjects'', path = JUndefined, pathprefix = JStr ''users/'',
      pathsuffix = JStr ''/projects'', queries = test_queryValidation ''userProjects''\<rparr>
     \<in> set (endpointWithIdAndOptions test_queryValidation)
   \<and> (JObj [(''sort'', JStr ''appreciations'')] = JStr []
        \<or> js_typeof (JObj [(''sort'', JStr ''appreciations'')]) = ''object'')
   \<and> Behance_call qs_flat test_queryValidation \<lparr>clientId = JNum 123456789\<rparr> ''userProjects''
        [JObj [(''sort'', JStr ''appreciations'')], JFun ''function cb() {}'' []]
      = Inl (JErr Error ''.userProjects requires at least an id and a callback function.'')"
  using idAndOptions_bad_id_throws [where queryValidation = test_queryValidation
      and stringify = qs_flat and ident = "JObj [(''sort'', JStr ''appreciations'')]"
      and this = "\<lparr>clientId = JNum 123456789\<rparr>" and rest = "[JFun ''function cb() {}'' []]",
      OF userProjects_def_in_table]
  by (simp add: userProjects_def_in_table)

subsection \<open>The operation \<^verbatim>\<open>collection\<close>\<close>

text \<open>
  The table entry of \<^verbatim>\<open>collection\<close> defines \<^verbatim>\<open>path\<close> where the other entries of its
  table define \<^verbatim>\<open>pathprefix\<close>, so the operation computes \<^verbatim>\<open>undefined + id\<close>. For an
  id whose primitive form is a string (a string, an array, an object, a function) this
  is a concatenation, and the path of the request is \<^verbatim>\<open>undefined\<close> followed by the id.
\<close>

lemma collection_stringlike_id_url:
  assumes "primitive_is_string ident"
  shows "Behance_call stringify queryValidation this ''collection'' [ident, c]
   = Inr [\<lparr>url = ''https://api.behance.net/v2/undefined'' @ ToString ident @ ''?&client_id=''
                   @ ToString (clientId this),
           cb = c\<rparr>]"
  using assms by (simp add: call_collection eval_defs)

text \<open>
  Claim C9. The claim is that for every id the path of the request is \<^verbatim>\<open>undefined\<close>
  followed by the id. The code does not do this for an id that is a number:
  \<^verbatim>\<open>undefined + 42\<close> is an addition of numbers and yields NaN, so
  \<^verbatim>\<open>collection(42, cb)\<close> requests the path \<^verbatim>\<open>NaN\<close>. The sibling \<^verbatim>\<open>project(42, cb)\<close>,
  whose entry defines \<^verbatim>\<open>pathprefix\<close>, requests \<^verbatim>\<open>projects/42\<close>.
\<close>

theorem collection_numeric_id_requests_NaN:
  "Behance_call qs_flat test_queryValidation \<lparr>clientId = JNum 123456789\<rparr> ''collection''
     [JNum 42, JFun ''function cb() {}'' []]
   = Inr [\<lparr>url = ''https://api.behance.net/v2/NaN?&client_id=123456789'',
           cb = JFun ''function cb() {}'' []\<rparr>]
   \<and> Behance_call qs_flat test_queryValidation \<lparr>clientId = JNum 123456789\<rparr> ''collection''
     [JNum 42, JFun ''function cb() {}'' []]
   \<noteq> Inr [\<lparr>url = ''https://api.behance.net/v2/undefined42?&client_id=123456789'',
           cb = JFun ''function cb() {}'' []\<rparr>]
   \<and> Behance_call qs_flat test_queryValidation \<lparr>clientId = JNum 123456789\<rparr> ''project''
     [JNum 42, JFun ''function cb() {}'' []]
   = Inr [\<lparr>url = ''https://api.behance.net/v2/projects/42?&client_id=123456789'',
           cb = JFun ''function cb() {}'' []\<rparr>]"
  by (simp add: call_collection call_project eval_defs)

end
